theory Spec2Isabelle
  imports Complex_Main
begin

section \<open>JavaScript values, errors and strings\<close>

text \<open>
  The converter is dynamically typed: every public method may be handed any JavaScript
  value. Numbers are IEEE doubles in the program; the model takes the finite ones as
  exact rationals (the arithmetic of the formulas is then exact) and keeps \<open>NaN\<close> and the
  two infinities as separate values, because the number validator tells them apart.
  \<open>JBoxed v\<close> is the wrapper object that \<open>Object(v)\<close> builds around a primitive and
  \<open>JPlainObject\<close> is a fresh \<open>{}\<close>; arrays are dense lists.
\<close>

datatype jsnumber = Finite rat | NaN | PosInfinity | NegInfinity

datatype jsval =
    JUndefined
  | JNull
  | JBool bool
  | JNum jsnumber
  | JStr string
  | JArr "jsval list"
  | JPlainObject
  | JBoxed jsval

text \<open>A thrown exception is the \<open>Inl\<close> side of a sum; the payload is the message.\<close>

datatype error =
    TypeError string
  | ValueError string
  | RangeError string
  | Error string

text \<open>
  \<open>String.prototype.toLowerCase\<close>, on strings of ASCII characters: the letters
  \<open>A\<close> to \<open>Z\<close> go to \<open>a\<close> to \<open>z\<close>, everything else stays.
\<close>

definition toLowerChar :: "char \<Rightarrow> char" where
  "toLowerChar c =
     (case map_of (zip ''ABCDEFGHIJKLMNOPQRSTUVWXYZ'' ''abcdefghijklmnopqrstuvwxyz'') c of
        Some l \<Rightarrow> l
      | None \<Rightarrow> c)"

definition toLowerCase :: "string \<Rightarrow> string" where
  "toLowerCase s = map toLowerChar s"

section \<open>InputValidator\<close>

text \<open>
  \<open>src/InputValidator.js\<close> is not among the sources; its test file is. Every validator
  below is modelled from section 4.1 of the spec. In the program a validator throws or
  returns nothing; the model returns the checked value on the \<open>Inr\<close> side, so that the
  caller continues with a string, a finite number or a list.
\<close>

text \<open>
  Modelled from the spec: \<open>validateInputTypeNumber(x)\<close>, absent from the sources, fails
  with \<open>TypeError("Input must be a number")\<close> when \<open>x\<close> is not a finite number
  (it rejects strings, \<open>NaN\<close>, \<open>null\<close>, \<open>undefined\<close>).
\<close>

definition validateInputTypeNumber :: "jsval \<Rightarrow> error + rat" where
  "validateInputTypeNumber x =
     (case x of
        JNum (Finite r) \<Rightarrow> Inr r
      | _ \<Rightarrow> Inl (TypeError ''Input must be a number''))"

text \<open>
  Modelled from the spec: \<open>validateInputTypeString(x)\<close>, absent from the sources, fails
  with \<open>TypeError("Input must be a string")\<close> when \<open>x\<close> is not a string.
\<close>

definition validateInputTypeString :: "jsval \<Rightarrow> error + string" where
  "validateInputTypeString x =
     (case x of
        JStr s \<Rightarrow> Inr s
      | _ \<Rightarrow> Inl (TypeError ''Input must be a string''))"

text \<open>
  Modelled from the spec: \<open>validateInputTypeArray(x)\<close>, absent from the sources, fails
  with \<open>TypeError("Input must be an array")\<close> when \<open>x\<close> is not an ordered sequence.
\<close>

definition validateInputTypeArray :: "jsval \<Rightarrow> error + jsval list" where
  "validateInputTypeArray x =
     (case x of
        JArr xs \<Rightarrow> Inr xs
      | _ \<Rightarrow> Inl (TypeError ''Input must be an array''))"

text \<open>
  Modelled from the spec: \<open>validatePositiveNumber(x)\<close>, absent from the sources, fails
  with \<open>ValueError("Number must be positive")\<close> when \<open>x < 0\<close>. Its callers pass a
  value that the number check has accepted.
\<close>

definition validatePositiveNumber :: "rat \<Rightarrow> error + rat" where
  "validatePositiveNumber x =
     (if x < 0 then Inl (ValueError ''Number must be positive'') else Inr x)"

text \<open>
  Modelled from the spec: \<open>validateCelsiusRange(x)\<close>, absent from the sources, fails with
  a \<open>ValueError\<close> when \<open>x < -273.15\<close>. The degree sign of the message is written as
  its two UTF-8 bytes.
\<close>

definition validateCelsiusRange :: "rat \<Rightarrow> error + rat" where
  "validateCelsiusRange x =
     (if x < - 273.15
      then Inl (ValueError (''Temperature must be greater than or equal to -273.15''
                            @ [CHR 0xC2, CHR 0xB0] @ ''C''))
      else Inr x)"

text \<open>
  Modelled from the spec: \<open>validateFahrenheitRange(x)\<close>, absent from the sources, fails
  with a \<open>ValueError\<close> when \<open>x < -459.67\<close>.
\<close>

definition validateFahrenheitRange :: "rat \<Rightarrow> error + rat" where
  "validateFahrenheitRange x =
     (if x < - 459.67
      then Inl (ValueError (''Temperature must be greater than or equal to -459.67''
                            @ [CHR 0xC2, CHR 0xB0] @ ''F''))
      else Inr x)"

section \<open>Category converters\<close>

subsection \<open>Leaf formulas\<close>

text \<open>
  The converter classes (\<open>src/converters/*.js\<close>) are not among the sources. The unit
  dispatch below calls them as \<open>this.#lengthConverter.metersToFeet(n)\<close> and so on, so a
  converter object is a record of its formulas and the dispatch takes it as a parameter.
\<close>

record lengthFormulas =
  metersToFeet :: "rat \<Rightarrow> rat"
  feetToMeters :: "rat \<Rightarrow> rat"
  centimetersToInches :: "rat \<Rightarrow> rat"
  inchesToCentimeters :: "rat \<Rightarrow> rat"

record weightFormulas =
  kilogramsToPounds :: "rat \<Rightarrow> rat"
  poundsToKilograms :: "rat \<Rightarrow> rat"
  gramsToOunces :: "rat \<Rightarrow> rat"
  ouncesToGrams :: "rat \<Rightarrow> rat"

text \<open>
  Modelled from the spec: the formulas of \<open>LengthConverter\<close>. The spec gives
  \<open>metersToFeet(x) = x * 3.28084\<close> and \<open>feetToMeters(x) = x / 3.28084\<close>. It gives no
  constant for centimetres and inches; the pair multiplies and divides by one constant
  \<open>k\<close>, which stays a parameter.
\<close>

definition LengthConverter :: "rat \<Rightarrow> lengthFormulas" where
  "LengthConverter k =
     \<lparr> metersToFeet = (\<lambda>x. x * 3.28084),
       feetToMeters = (\<lambda>x. x / 3.28084),
       centimetersToInches = (\<lambda>x. x / k),
       inchesToCentimeters = (\<lambda>x. x * k) \<rparr>"

text \<open>
  Modelled from the spec: the formulas of \<open>WeightConverter\<close>. The spec gives
  \<open>kilogramsToPounds(x) = x * 2.20462\<close>; the reverse divides by the same constant. It
  gives no constant for grams and ounces; the pair multiplies and divides by one
  constant \<open>k\<close>, which stays a parameter.
\<close>

definition WeightConverter :: "rat \<Rightarrow> weightFormulas" where
  "WeightConverter k =
     \<lparr> kilogramsToPounds = (\<lambda>x. x * 2.20462),
       poundsToKilograms = (\<lambda>x. x / 2.20462),
       gramsToOunces = (\<lambda>x. x / k),
       ouncesToGrams = (\<lambda>x. x * k) \<rparr>"

text \<open>
  Modelled from the spec: the Celsius to Fahrenheit formula of the absent
  \<open>TemperatureConverter\<close>, \<open>x*9/5+32\<close>.
\<close>

definition celsiusToFahrenheit :: "rat \<Rightarrow> rat" where
  "celsiusToFahrenheit x = x * 9 / 5 + 32"

text \<open>
  Modelled from the spec: the Fahrenheit to Celsius formula of the absent
  \<open>TemperatureConverter\<close>, \<open>(x-32)*5/9\<close>.
\<close>

definition fahrenheitToCelsius :: "rat \<Rightarrow> rat" where
  "fahrenheitToCelsius x = (x - 32) * 5 / 9"

subsection \<open>Unit dispatch for length and weight\<close>

text \<open>
  The second source file resolves the unit pair: a \<open>switch\<close> on the lower-cased source
  unit picks a handler, the handler switches on the lower-cased target unit. Every
  \<open>default\<close> branch throws \<open>Error('Conversion not available')\<close>. The functions are
  applied to strings and a finite number, which is what the facade's validation leaves.
  Its \<open>convertLength\<close> and \<open>convertWeight\<close> carry the suffix \<open>_units\<close> here, since the
  facade of \<open>ConverterSystem.js\<close> has methods of the same names.
\<close>

definition convertFromMeters :: "lengthFormulas \<Rightarrow> string \<Rightarrow> rat \<Rightarrow> error + rat" where
  "convertFromMeters lc convertTo numberToConvert =
     (let t = toLowerCase convertTo in
      if t = ''feet'' \<or> t = ''ft'' then Inr (metersToFeet lc numberToConvert)
      else Inl (Error ''Conversion not available''))"

definition convertFromFeet :: "lengthFormulas \<Rightarrow> string \<Rightarrow> rat \<Rightarrow> error + rat" where
  "convertFromFeet lc convertTo numberToConvert =
     (let t = toLowerCase convertTo in
      if t = ''meters'' \<or> t = ''m'' then Inr (feetToMeters lc numberToConvert)
      else Inl (Error ''Conversion not available''))"

definition convertFromCentimeters :: "lengthFormulas \<Rightarrow> string \<Rightarrow> rat \<Rightarrow> error + rat" where
  "convertFromCentimeters lc convertTo numberToConvert =
     (let t = toLowerCase convertTo in
      if t = ''inches'' \<or> t = ''in'' then Inr (centimetersToInches lc numberToConvert)
      else Inl (Error ''Conversion not available''))"

definition convertFromInches :: "lengthFormulas \<Rightarrow> string \<Rightarrow> rat \<Rightarrow> error + rat" where
  "convertFromInches lc convertTo numberToConvert =
     (let t = toLowerCase convertTo in
      if t = ''centimeters'' \<or> t = ''cm'' then Inr (inchesToCentimeters lc numberToConvert)
      else Inl (Error ''Conversion not available''))"

definition convertLength_units ::
  "lengthFormulas \<Rightarrow> string \<Rightarrow> string \<Rightarrow> rat \<Rightarrow> error + rat" where
  "convertLength_units lc convertFrom convertTo numberToConvert =
     (let f = toLowerCase convertFrom in
      if f = ''meters'' \<or> f = ''m'' then convertFromMeters lc convertTo numberToConvert
      else if f = ''feet'' \<or> f = ''ft'' then convertFromFeet lc convertTo numberToConvert
      else if f = ''centimeters'' \<or> f = ''cm''
        then convertFromCentimeters lc convertTo numberToConvert
      else if f = ''inches'' \<or> f = ''in'' then convertFromInches lc convertTo numberToConvert
      else Inl (Error ''Conversion not available''))"

definition convertFromKilograms :: "weightFormulas \<Rightarrow> string \<Rightarrow> rat \<Rightarrow> error + rat" where
  "convertFromKilograms wc convertTo numberToConvert =
     (let t = toLowerCase convertTo in
      if t = ''pounds'' \<or> t = ''lb'' then Inr (kilogramsToPounds wc numberToConvert)
      else Inl (Error ''Conversion not available''))"

definition convertFromPounds :: "weightFormulas \<Rightarrow> string \<Rightarrow> rat \<Rightarrow> error + rat" where
  "convertFromPounds wc convertTo numberToConvert =
     (let t = toLowerCase convertTo in
      if t = ''kilograms'' \<or> t = ''kg'' then Inr (poundsToKilograms wc numberToConvert)
      else Inl (Error ''Conversion not available''))"

definition convertFromGrams :: "weightFormulas \<Rightarrow> string \<Rightarrow> rat \<Rightarrow> error + rat" where
  "convertFromGrams wc convertTo numberToConvert =
     (let t = toLowerCase convertTo in
      if t = ''ounces'' \<or> t = ''oz'' then Inr (gramsToOunces wc numberToConvert)
      else Inl (Error ''Conversion not available''))"

definition convertFromOunces :: "weightFormulas \<Rightarrow> string \<Rightarrow> rat \<Rightarrow> error + rat" where
  "convertFromOunces wc convertTo numberToConvert =
     (let t = toLowerCase convertTo in
      if t = ''grams'' \<or> t = ''g'' then Inr (ouncesToGrams wc numberToConvert)
      else Inl (Error ''Conversion not available''))"

definition convertWeight_units ::
  "weightFormulas \<Rightarrow> string \<Rightarrow> string \<Rightarrow> rat \<Rightarrow> error + rat" where
  "convertWeight_units wc convertFrom convertTo numberToConvert =
     (let f = toLowerCase convertFrom in
      if f = ''kilograms'' \<or> f = ''kg'' then convertFromKilograms wc convertTo numberToConvert
      else if f = ''pounds'' \<or> f = ''lb'' then convertFromPounds wc convertTo numberToConvert
      else if f = ''grams'' \<or> f = ''g'' then convertFromGrams wc convertTo numberToConvert
      else if f = ''ounces'' \<or> f = ''oz'' then convertFromOunces wc convertTo numberToConvert
      else Inl (Error ''Conversion not available''))"

subsection \<open>Unit dispatch for temperature\<close>

text \<open>
  The temperature dispatch is not among the sources; the tests of
  \<open>convertFromCelsius\<close> and \<open>convertFromFahrenheit\<close> are. The handlers are modelled
  from the spec, in the shape of the length and weight handlers and with the unit words
  that the tests use. The spec places the range check inside the temperature converter,
  before the conversion.
\<close>

text \<open>
  Modelled from the spec: \<open>convertFromCelsius(convertTo, numberToConvert)\<close>, absent from
  the sources: the Celsius range check, then Fahrenheit as the only target.
\<close>

definition convertFromCelsius :: "string \<Rightarrow> rat \<Rightarrow> error + rat" where
  "convertFromCelsius convertTo numberToConvert =
     (case validateCelsiusRange numberToConvert of
        Inl e \<Rightarrow> Inl e
      | Inr x \<Rightarrow>
          (let t = toLowerCase convertTo in
           if t = ''fahrenheit'' then Inr (celsiusToFahrenheit x)
           else Inl (Error ''Conversion not available'')))"

text \<open>
  Modelled from the spec: \<open>convertFromFahrenheit(convertTo, numberToConvert)\<close>, absent
  from the sources: the Fahrenheit range check, then Celsius as the only target.
\<close>

definition convertFromFahrenheit :: "string \<Rightarrow> rat \<Rightarrow> error + rat" where
  "convertFromFahrenheit convertTo numberToConvert =
     (case validateFahrenheitRange numberToConvert of
        Inl e \<Rightarrow> Inl e
      | Inr x \<Rightarrow>
          (let t = toLowerCase convertTo in
           if t = ''celsius'' then Inr (fahrenheitToCelsius x)
           else Inl (Error ''Conversion not available'')))"

text \<open>
  Modelled from the spec: the \<open>convert\<close> method of the absent \<open>TemperatureConverter\<close>,
  a switch on the lower-cased source unit.
\<close>

definition convertTemperature_units :: "string \<Rightarrow> string \<Rightarrow> rat \<Rightarrow> error + rat" where
  "convertTemperature_units convertFrom convertTo numberToConvert =
     (let f = toLowerCase convertFrom in
      if f = ''celsius'' then convertFromCelsius convertTo numberToConvert
      else if f = ''fahrenheit'' then convertFromFahrenheit convertTo numberToConvert
      else Inl (Error ''Conversion not available''))"

section \<open>ConverterSystem: the facade\<close>

text \<open>
  \<open>ConverterSystem.js\<close> keeps one converter object per category in a private field and
  calls its \<open>convert(convertFrom, convertTo, numberToConvert)\<close>. A system is the record
  of these five \<open>convert\<close> methods. They are called after the validation only, hence on
  two strings and a finite number.
\<close>

record converterSystem =
  temperatureConverter :: "string \<Rightarrow> string \<Rightarrow> rat \<Rightarrow> error + rat"
  lengthConverter :: "string \<Rightarrow> string \<Rightarrow> rat \<Rightarrow> error + rat"
  speedConverter :: "string \<Rightarrow> string \<Rightarrow> rat \<Rightarrow> error + rat"
  weightConverter :: "string \<Rightarrow> string \<Rightarrow> rat \<Rightarrow> error + rat"
  volumeConverter :: "string \<Rightarrow> string \<Rightarrow> rat \<Rightarrow> error + rat"

definition validateInputs :: "jsval \<Rightarrow> jsval \<Rightarrow> jsval \<Rightarrow> error + (string \<times> string \<times> rat)" where
  "validateInputs convertFrom convertTo numberToConvert =
     (case validateInputTypeString convertFrom of
        Inl e \<Rightarrow> Inl e
      | Inr f \<Rightarrow>
     (case validateInputTypeString convertTo of
        Inl e \<Rightarrow> Inl e
      | Inr t \<Rightarrow>
     (case validateInputTypeNumber numberToConvert of
        Inl e \<Rightarrow> Inl e
      | Inr x \<Rightarrow> Inr (f, t, x))))"

definition convertTemperature :: "converterSystem \<Rightarrow> jsval \<Rightarrow> jsval \<Rightarrow> jsval \<Rightarrow> error + rat" where
  "convertTemperature cs convertFrom convertTo numberToConvert =
     (case validateInputs convertFrom convertTo numberToConvert of
        Inl e \<Rightarrow> Inl e
      | Inr (f, t, x) \<Rightarrow> temperatureConverter cs f t x)"

definition convertLength :: "converterSystem \<Rightarrow> jsval \<Rightarrow> jsval \<Rightarrow> jsval \<Rightarrow> error + rat" where
  "convertLength cs convertFrom convertTo numberToConvert =
     (case validateInputs convertFrom convertTo numberToConvert of
        Inl e \<Rightarrow> Inl e
      | Inr (f, t, x) \<Rightarrow>
          (case validatePositiveNumber x of
             Inl e \<Rightarrow> Inl e
           | Inr _ \<Rightarrow> lengthConverter cs f t x))"

definition convertSpeed :: "converterSystem \<Rightarrow> jsval \<Rightarrow> jsval \<Rightarrow> jsval \<Rightarrow> error + rat" where
  "convertSpeed cs convertFrom convertTo numberToConvert =
     (case validateInputs convertFrom convertTo numberToConvert of
        Inl e \<Rightarrow> Inl e
      | Inr (f, t, x) \<Rightarrow>
          (case validatePositiveNumber x of
             Inl e \<Rightarrow> Inl e
           | Inr _ \<Rightarrow> speedConverter cs f t x))"

definition convertWeight :: "converterSystem \<Rightarrow> jsval \<Rightarrow> jsval \<Rightarrow> jsval \<Rightarrow> error + rat" where
  "convertWeight cs convertFrom convertTo numberToConvert =
     (case validateInputs convertFrom convertTo numberToConvert of
        Inl e \<Rightarrow> Inl e
      | Inr (f, t, x) \<Rightarrow>
          (case validatePositiveNumber x of
             Inl e \<Rightarrow> Inl e
           | Inr _ \<Rightarrow> weightConverter cs f t x))"

definition convertVolume :: "converterSystem \<Rightarrow> jsval \<Rightarrow> jsval \<Rightarrow> jsval \<Rightarrow> error + rat" where
  "convertVolume cs convertFrom convertTo numberToConvert =
     (case validateInputs convertFrom convertTo numberToConvert of
        Inl e \<Rightarrow> Inl e
      | Inr (f, t, x) \<Rightarrow>
          (case validatePositiveNumber x of
             Inl e \<Rightarrow> Inl e
           | Inr _ \<Rightarrow> volumeConverter cs f t x))"

subsection \<open>Choosing a conversion method\<close>

text \<open>
  \<open>#conversionMethods\<close> is an object literal with the five bound methods as its own
  properties. Reading \<open>obj[key]\<close> also finds what the object inherits from
  \<open>Object.prototype\<close>. The key is always a lower-cased string, and the only inherited
  property names without an upper-case letter are \<open>constructor\<close> (the function
  \<open>Object\<close>) and \<open>__proto__\<close> (the object \<open>Object.prototype\<close> itself); the others
  (\<open>toString\<close>, \<open>valueOf\<close>, \<open>hasOwnProperty\<close>, \<open>isPrototypeOf\<close>,
  \<open>propertyIsEnumerable\<close>, \<open>toLocaleString\<close>, \<open>__defineGetter__\<close>, ...) cannot be
  the result of \<open>toLowerCase\<close>. \<open>None\<close> is \<open>undefined\<close>.
\<close>

datatype callee =
    ConvertTemperature
  | ConvertLength
  | ConvertSpeed
  | ConvertWeight
  | ConvertVolume
  | ObjectConstructor
  | ObjectPrototype

definition conversionMethods :: "string \<Rightarrow> callee option" where
  "conversionMethods key =
     (if key = ''temperature'' then Some ConvertTemperature
      else if key = ''length'' then Some ConvertLength
      else if key = ''speed'' then Some ConvertSpeed
      else if key = ''weight'' then Some ConvertWeight
      else if key = ''volume'' then Some ConvertVolume
      else if key = ''constructor'' then Some ObjectConstructor
      else if key = ''__proto__'' then Some ObjectPrototype
      else None)"

text \<open>Every value the lookup can find is a function or an object, hence truthy.\<close>

definition chooseConversionMethod :: "string \<Rightarrow> error + callee" where
  "chooseConversionMethod conversionType =
     (case conversionMethods (toLowerCase conversionType) of
        None \<Rightarrow> Inl (Error ''Conversion not available'')
      | Some conversionMethod \<Rightarrow> Inr conversionMethod)"

text \<open>
  \<open>Object(value)\<close> called as a function: a fresh object for \<open>undefined\<close> and
  \<open>null\<close>, the wrapper object of a primitive, and an object itself. The further
  arguments are ignored.
\<close>

fun Object_call :: "jsval \<Rightarrow> jsval" where
  "Object_call JUndefined = JPlainObject"
| "Object_call JNull = JPlainObject"
| "Object_call (JBool b) = JBoxed (JBool b)"
| "Object_call (JNum n) = JBoxed (JNum n)"
| "Object_call (JStr s) = JBoxed (JStr s)"
| "Object_call (JArr xs) = JArr xs"
| "Object_call JPlainObject = JPlainObject"
| "Object_call (JBoxed v) = JBoxed v"

text \<open>\<open>conversionMethod(convertFrom, convertTo, number)\<close> for each value of the lookup.\<close>

definition number :: "error + rat \<Rightarrow> error + jsval" where
  "number r = (case r of Inl e \<Rightarrow> Inl e | Inr x \<Rightarrow> Inr (JNum (Finite x)))"

fun callMethod :: "converterSystem \<Rightarrow> callee \<Rightarrow> jsval \<Rightarrow> jsval \<Rightarrow> jsval \<Rightarrow> error + jsval" where
  "callMethod cs ConvertTemperature f t n = number (convertTemperature cs f t n)"
| "callMethod cs ConvertLength f t n = number (convertLength cs f t n)"
| "callMethod cs ConvertSpeed f t n = number (convertSpeed cs f t n)"
| "callMethod cs ConvertWeight f t n = number (convertWeight cs f t n)"
| "callMethod cs ConvertVolume f t n = number (convertVolume cs f t n)"
| "callMethod cs ObjectConstructor f t n = Inr (Object_call f)"
| "callMethod cs ObjectPrototype f t n = Inl (TypeError ''conversionMethod is not a function'')"

subsection \<open>Batch, summary and rounding\<close>

text \<open>\<open>Array.prototype.map\<close> with a callback that may throw: the first throw ends the call.\<close>

fun arrayMap :: "('a \<Rightarrow> error + 'b) \<Rightarrow> 'a list \<Rightarrow> error + 'b list" where
  "arrayMap g [] = Inr []"
| "arrayMap g (x # xs) =
     (case g x of
        Inl e \<Rightarrow> Inl e
      | Inr y \<Rightarrow> (case arrayMap g xs of Inl e \<Rightarrow> Inl e | Inr ys \<Rightarrow> Inr (y # ys)))"

definition convertMultipleValues ::
  "converterSystem \<Rightarrow> jsval \<Rightarrow> jsval \<Rightarrow> jsval \<Rightarrow> jsval \<Rightarrow> error + jsval list" where
  "convertMultipleValues cs conversionType convertFrom convertTo numbersToConvert =
     (case validateInputTypeString conversionType of
        Inl e \<Rightarrow> Inl e
      | Inr ct \<Rightarrow>
     (case validateInputTypeArray numbersToConvert of
        Inl e \<Rightarrow> Inl e
      | Inr xs \<Rightarrow>
     (case chooseConversionMethod ct of
        Inl e \<Rightarrow> Inl e
      | Inr conversionMethod \<Rightarrow>
          arrayMap (\<lambda>n. callMethod cs conversionMethod convertFrom convertTo n) xs)))"

record summary =
  conversionType :: jsval
  convertFrom :: jsval
  convertTo :: jsval
  numberToConvert :: jsval
  convertedNumber :: jsval

definition convertWithSummary ::
  "converterSystem \<Rightarrow> jsval \<Rightarrow> jsval \<Rightarrow> jsval \<Rightarrow> jsval \<Rightarrow> error + summary" where
  "convertWithSummary cs ctype cfrom cto n =
     (case validateInputTypeString ctype of
        Inl e \<Rightarrow> Inl e
      | Inr ct \<Rightarrow>
     (case chooseConversionMethod ct of
        Inl e \<Rightarrow> Inl e
      | Inr conversionMethod \<Rightarrow>
     (case callMethod cs conversionMethod cfrom cto n of
        Inl e \<Rightarrow> Inl e
      | Inr converted \<Rightarrow>
          Inr \<lparr> conversionType = ctype, convertFrom = cfrom, convertTo = cto,
                numberToConvert = n, convertedNumber = converted \<rparr>)))"

text \<open>
  \<open>Number.prototype.toFixed(fractionDigits)\<close>, by the steps of the language standard:
  \<open>f\<close> is the argument truncated to an integer; a \<open>RangeError\<close> unless
  \<open>0 \<le> f \<le> 100\<close>; a number that is not finite gives its name; a negative \<open>x\<close> is
  written as \<open>-\<close> followed by the digits of \<open>-x\<close>; from \<open>10^21\<close> on the result is the
  ordinary text of the number; otherwise the digits are those of the integer \<open>n\<close> for
  which \<open>n / 10^f - x\<close> is as close to zero as possible, the larger \<open>n\<close> if there are
  two. The returned string is represented by the number it spells, and \<open>parseFloat\<close>
  reads that number back.
\<close>

datatype numberText = Decimal rat | NaNText | InfinityText | NegInfinityText

definition toIntegerOrInfinity :: "rat \<Rightarrow> int" where
  "toIntegerOrInfinity d = (if 0 \<le> d then \<lfloor>d\<rfloor> else \<lceil>d\<rceil>)"

definition fixedDigits :: "rat \<Rightarrow> nat \<Rightarrow> rat" where
  "fixedDigits x f = of_int \<lfloor>x * 10 ^ f + 1 / 2\<rfloor> / 10 ^ f"

definition numberToFixed :: "jsnumber \<Rightarrow> rat \<Rightarrow> error + numberText" where
  "numberToFixed v fractionDigits =
     (let f = toIntegerOrInfinity fractionDigits in
      if f < 0 \<or> 100 < f
      then Inl (RangeError ''toFixed() digits argument must be between 0 and 100'')
      else (case v of
              NaN \<Rightarrow> Inr NaNText
            | PosInfinity \<Rightarrow> Inr InfinityText
            | NegInfinity \<Rightarrow> Inr NegInfinityText
            | Finite x \<Rightarrow>
                if 10 ^ 21 \<le> \<bar>x\<bar> then Inr (Decimal x)
                else if x < 0 then Inr (Decimal (- fixedDigits (- x) (nat f)))
                else Inr (Decimal (fixedDigits x (nat f)))))"

text \<open>
  \<open>convertedNumber.toFixed(decimalPlaces)\<close> on whatever the chosen method returned:
  numbers and \<open>Number\<close> wrappers have the method, other values do not.
\<close>

definition toFixed :: "jsval \<Rightarrow> rat \<Rightarrow> error + numberText" where
  "toFixed v fractionDigits =
     (case v of
        JNum x \<Rightarrow> numberToFixed x fractionDigits
      | JBoxed (JNum x) \<Rightarrow> numberToFixed x fractionDigits
      | JUndefined \<Rightarrow> Inl (TypeError ''Cannot read properties of undefined (reading 'toFixed')'')
      | JNull \<Rightarrow> Inl (TypeError ''Cannot read properties of null (reading 'toFixed')'')
      | _ \<Rightarrow> Inl (TypeError ''convertedNumber.toFixed is not a function''))"

fun parseFloat :: "numberText \<Rightarrow> jsval" where
  "parseFloat (Decimal q) = JNum (Finite q)"
| "parseFloat NaNText = JNum NaN"
| "parseFloat InfinityText = JNum PosInfinity"
| "parseFloat NegInfinityText = JNum NegInfinity"

definition convertAndRoundUp ::
  "converterSystem \<Rightarrow> jsval \<Rightarrow> jsval \<Rightarrow> jsval \<Rightarrow> jsval \<Rightarrow> jsval \<Rightarrow> error + jsval" where
  "convertAndRoundUp cs ctype cfrom cto n decimalPlaces =
     (case validateInputTypeString ctype of
        Inl e \<Rightarrow> Inl e
      | Inr ct \<Rightarrow>
     (case validateInputTypeNumber decimalPlaces of
        Inl e \<Rightarrow> Inl e
      | Inr d \<Rightarrow>
     (case chooseConversionMethod ct of
        Inl e \<Rightarrow> Inl e
      | Inr conversionMethod \<Rightarrow>
     (case callMethod cs conversionMethod cfrom cto n of
        Inl e \<Rightarrow> Inl e
      | Inr converted \<Rightarrow>
     (case toFixed converted d of
        Inl e \<Rightarrow> Inl e
      | Inr text \<Rightarrow> Inr (parseFloat text))))))"

subsection \<open>A concrete system\<close>

text \<open>
  The system on which the statements below are evaluated. Its length and weight
  converters are the unit dispatch above over the formulas of the spec, with
  \<open>2.54\<close> centimetres to the inch and \<open>28.3495\<close> grams to the ounce (the constants
  that reproduce the values of the converter tests); its temperature converter is
  the dispatch modelled from the spec. The speed and volume converters are not among
  the sources and the spec gives no formula of theirs: in this system they support no
  unit pair. The theorems about all systems do not depend on any of these choices.
\<close>

definition noUnitPair :: "string \<Rightarrow> string \<Rightarrow> rat \<Rightarrow> error + rat" where
  "noUnitPair f t x = Inl (Error ''Conversion not available'')"

definition ConverterSystem :: converterSystem where
  "ConverterSystem =
     \<lparr> temperatureConverter = convertTemperature_units,
       lengthConverter = convertLength_units (LengthConverter 2.54),
       speedConverter = noUnitPair,
       weightConverter = convertWeight_units (WeightConverter 28.3495),
       volumeConverter = noUnitPair \<rparr>"

section \<open>Vocabulary of the statements\<close>

text \<open>What the validators accept, as predicates on values.\<close>

definition is_string :: "jsval \<Rightarrow> bool" where
  "is_string v = (case v of JStr _ \<Rightarrow> True | _ \<Rightarrow> False)"

definition is_finite_number :: "jsval \<Rightarrow> bool" where
  "is_finite_number v = (case v of JNum (Finite _) \<Rightarrow> True | _ \<Rightarrow> False)"

text \<open>
  The fixed mapping of the specification, in its words: the category, lower-cased, is
  looked up among \<open>temperature\<close>, \<open>length\<close>, \<open>speed\<close>, \<open>weight\<close> and \<open>volume\<close>
  and gives the public conversion of that category. A category is valid when the lookup
  succeeds.
\<close>

definition baseConversion ::
  "converterSystem \<Rightarrow> string \<Rightarrow> (jsval \<Rightarrow> jsval \<Rightarrow> jsval \<Rightarrow> error + rat) option" where
  "baseConversion cs category =
     (let key = toLowerCase category in
      if key = ''temperature'' then Some (convertTemperature cs)
      else if key = ''length'' then Some (convertLength cs)
      else if key = ''speed'' then Some (convertSpeed cs)
      else if key = ''weight'' then Some (convertWeight cs)
      else if key = ''volume'' then Some (convertVolume cs)
      else None)"




text \<open>
  The tolerance of the converter tests: \<open>toBeCloseTo(expected, 2)\<close> accepts a returned
  number less than \<open>0.005\<close> away from the expected one.
\<close>

definition closeTo :: "error + rat \<Rightarrow> rat \<Rightarrow> bool" where
  "closeTo r expected = (case r of Inl e \<Rightarrow> False | Inr y \<Rightarrow> \<bar>expected - y\<bar> < 0.005)"

section \<open>Evaluation and basic facts\<close>

lemmas eval_defs = toLowerCase_def toLowerChar_def baseConversion_def
  chooseConversionMethod_def conversionMethods_def
  validateInputTypeString_def validateInputTypeNumber_def validateInputTypeArray_def
  validateInputs_def validatePositiveNumber_def

lemmas facade_defs = convertTemperature_def convertLength_def convertSpeed_def
  convertWeight_def convertVolume_def number_def ConverterSystem_def noUnitPair_def

lemmas unit_defs = convertLength_units_def convertFromMeters_def convertFromFeet_def
  convertFromCentimeters_def convertFromInches_def convertWeight_units_def
  convertFromKilograms_def convertFromPounds_def convertFromGrams_def convertFromOunces_def
  LengthConverter_def WeightConverter_def

lemmas entry_defs = convertTemperature_def convertLength_def convertSpeed_def
  convertWeight_def convertVolume_def

lemmas temperature_defs = convertTemperature_units_def convertFromCelsius_def
  convertFromFahrenheit_def validateCelsiusRange_def validateFahrenheitRange_def
  celsiusToFahrenheit_def fahrenheitToCelsius_def

text \<open>
  The validators, handlers and formulas give what the two test files of the repository
  expect of them.
\<close>

lemma validator_tests:
  "validateInputTypeNumber (JStr ''string'') = Inl (TypeError ''Input must be a number'')"
  "validateInputTypeNumber (JNum NaN) = Inl (TypeError ''Input must be a number'')"
  "validateInputTypeNumber JNull = Inl (TypeError ''Input must be a number'')"
  "validateInputTypeNumber JUndefined = Inl (TypeError ''Input must be a number'')"
  "validateInputTypeString (JNum (Finite 1)) = Inl (TypeError ''Input must be a string'')"
  "validateInputTypeString (JArr []) = Inl (TypeError ''Input must be a string'')"
  "validateInputTypeString JUndefined = Inl (TypeError ''Input must be a string'')"
  "validatePositiveNumber (- 1) = Inl (ValueError ''Number must be positive'')"
  "\<exists>e. validateCelsiusRange (- 300) = Inl e"
  "\<exists>e. validateFahrenheitRange (- 500) = Inl e"
  by (simp_all add: validateInputTypeNumber_def validateInputTypeString_def
        validatePositiveNumber_def validateCelsiusRange_def validateFahrenheitRange_def)

lemma selector_tests:
  "closeTo (convertFromMeters (LengthConverter 2.54) ''feet'' 2) 6.561"
  "convertFromMeters (LengthConverter 2.54) ''in'' 21 = Inl (Error ''Conversion not available'')"
  "closeTo (convertFromFeet (LengthConverter 2.54) ''meters'' 23) 7.010"
  "convertFromFeet (LengthConverter 2.54) ''cm'' 93 = Inl (Error ''Conversion not available'')"
  "closeTo (convertFromCentimeters (LengthConverter 2.54) ''inches'' 70) 27.559"
  "convertFromCentimeters (LengthConverter 2.54) ''m'' 55 = Inl (Error ''Conversion not available'')"
  "closeTo (convertFromInches (LengthConverter 2.54) ''centimeters'' 9) 22.86"
  "convertFromInches (LengthConverter 2.54) ''feet'' 24 = Inl (Error ''Conversion not available'')"
  "closeTo (convertFromKilograms (WeightConverter 28.3495) ''Pounds'' 12) 26.455"
  "convertFromKilograms (WeightConverter 28.3495) ''grams'' 12
     = Inl (Error ''Conversion not available'')"
  "closeTo (convertFromPounds (WeightConverter 28.3495) ''kg'' 6) 2.721"
  "convertFromPounds (WeightConverter 28.3495) ''ounces'' 2
     = Inl (Error ''Conversion not available'')"
  "closeTo (convertFromGrams (WeightConverter 28.3495) ''ounces'' 56) 1.975"
  "convertFromGrams (WeightConverter 28.3495) ''pounds'' 101
     = Inl (Error ''Conversion not available'')"
  "closeTo (convertFromOunces (WeightConverter 28.3495) ''Grams'' 7) 198.446"
  "convertFromOunces (WeightConverter 28.3495) ''kilograms'' 3
     = Inl (Error ''Conversion not available'')"
  "convertFromCelsius ''fahrenheit'' 18 = Inr 64.4"
  "convertFromCelsius ''fahrenheit'' (- 25) = Inr (- 13)"
  "convertFromCelsius ''kelvin'' 21 = Inl (Error ''Conversion not available'')"
  "convertFromFahrenheit ''celsius'' 68 = Inr 20"
  "convertFromFahrenheit ''celsius'' (- 22) = Inr (- 30)"
  "convertFromFahrenheit ''kelvin'' 97 = Inl (Error ''Conversion not available'')"
  by (simp_all add: closeTo_def unit_defs temperature_defs toLowerCase_def toLowerChar_def)

section \<open>Validation order of the category entry points\<close>

lemma validateInputs_string:
  "\<not> is_string a \<or> \<not> is_string b \<Longrightarrow>
   validateInputs a b n = Inl (TypeError ''Input must be a string'')"
  by (auto simp: validateInputs_def validateInputTypeString_def is_string_def
           split: jsval.splits)

lemma validateInputs_number:
  "is_string a \<Longrightarrow> is_string b \<Longrightarrow> \<not> is_finite_number n \<Longrightarrow>
   validateInputs a b n = Inl (TypeError ''Input must be a number'')"
  by (auto simp: validateInputs_def validateInputTypeString_def validateInputTypeNumber_def
                 is_string_def is_finite_number_def
           split: jsval.splits jsnumber.splits)

lemma validateInputs_pass:
  "validateInputs (JStr f) (JStr t) (JNum (Finite x)) = Inr (f, t, x)"
  by (simp add: validateInputs_def validateInputTypeString_def validateInputTypeNumber_def)

lemma validateInputs_Inr:
  "validateInputs a b n = Inr (f, t, x) \<longleftrightarrow> a = JStr f \<and> b = JStr t \<and> n = JNum (Finite x)"
  by (auto simp: validateInputs_def validateInputTypeString_def validateInputTypeNumber_def
           split: jsval.splits jsnumber.splits)

lemma validateInputs_Inl:
  "validateInputs a b n = Inl e \<Longrightarrow>
   e = TypeError ''Input must be a string'' \<or> e = TypeError ''Input must be a number''"
  by (auto simp: validateInputs_def validateInputTypeString_def validateInputTypeNumber_def
           split: jsval.splits jsnumber.splits)

text \<open>
  C1. Each of \<open>convertTemperature\<close>, \<open>convertLength\<close>, \<open>convertSpeed\<close>,
  \<open>convertWeight\<close> and \<open>convertVolume\<close> checks its arguments in a fixed order. If
  one of the two units is not a string the call throws \<open>TypeError 'Input must be a
  string'\<close>; if both are strings and the value is not a finite number it throws
  \<open>TypeError 'Input must be a number'\<close>; if these pass and the value is negative,
  the four categories other than temperature throw \<open>'Number must be positive'\<close>; if
  all checks pass the call is that of the category's converter. So an
  \<open>Error 'Conversion not available'\<close> comes out only for two strings and a finite
  number, which is non-negative outside temperature.
\<close>

theorem validation_order:
  "(\<not> is_string a \<or> \<not> is_string b \<longrightarrow>
      convertTemperature cs a b n = Inl (TypeError ''Input must be a string'') \<and>
      convertLength cs a b n = Inl (TypeError ''Input must be a string'') \<and>
      convertSpeed cs a b n = Inl (TypeError ''Input must be a string'') \<and>
      convertWeight cs a b n = Inl (TypeError ''Input must be a string'') \<and>
      convertVolume cs a b n = Inl (TypeError ''Input must be a string'')) \<and>
   (is_string a \<and> is_string b \<and> \<not> is_finite_number n \<longrightarrow>
      convertTemperature cs a b n = Inl (TypeError ''Input must be a number'') \<and>
      convertLength cs a b n = Inl (TypeError ''Input must be a number'') \<and>
      convertSpeed cs a b n = Inl (TypeError ''Input must be a number'') \<and>
      convertWeight cs a b n = Inl (TypeError ''Input must be a number'') \<and>
      convertVolume cs a b n = Inl (TypeError ''Input must be a number'')) \<and>
   (is_string a \<and> is_string b \<and> n = JNum (Finite x) \<and> x < 0 \<longrightarrow>
      convertLength cs a b n = Inl (ValueError ''Number must be positive'') \<and>
      convertSpeed cs a b n = Inl (ValueError ''Number must be positive'') \<and>
      convertWeight cs a b n = Inl (ValueError ''Number must be positive'') \<and>
      convertVolume cs a b n = Inl (ValueError ''Number must be positive'')) \<and>
   (a = JStr f \<and> b = JStr t \<and> n = JNum (Finite x) \<longrightarrow>
      convertTemperature cs a b n = temperatureConverter cs f t x \<and>
      (0 \<le> x \<longrightarrow>
         convertLength cs a b n = lengthConverter cs f t x \<and>
         convertSpeed cs a b n = speedConverter cs f t x \<and>
         convertWeight cs a b n = weightConverter cs f t x \<and>
         convertVolume cs a b n = volumeConverter cs f t x)) \<and>
   (convertTemperature cs a b n = Inl (Error ''Conversion not available'') \<longrightarrow>
      is_string a \<and> is_string b \<and> is_finite_number n) \<and>
   (convertLength cs a b n = Inl (Error ''Conversion not available'') \<or>
    convertSpeed cs a b n = Inl (Error ''Conversion not available'') \<or>
    convertWeight cs a b n = Inl (Error ''Conversion not available'') \<or>
    convertVolume cs a b n = Inl (Error ''Conversion not available'') \<longrightarrow>
      (\<exists>r. is_string a \<and> is_string b \<and> n = JNum (Finite r) \<and> 0 \<le> r)) \<and>
   (n = JNum (Finite x) \<and> x < 0 \<longrightarrow>
      (\<forall>r. convertLength cs a b n \<noteq> Inr r \<and> convertSpeed cs a b n \<noteq> Inr r \<and>
           convertWeight cs a b n \<noteq> Inr r \<and> convertVolume cs a b n \<noteq> Inr r))"
proof (intro conjI impI)
  assume h: "\<not> is_string a \<or> \<not> is_string b"
  show "convertTemperature cs a b n = Inl (TypeError ''Input must be a string'')"
       "convertLength cs a b n = Inl (TypeError ''Input must be a string'')"
       "convertSpeed cs a b n = Inl (TypeError ''Input must be a string'')"
       "convertWeight cs a b n = Inl (TypeError ''Input must be a string'')"
       "convertVolume cs a b n = Inl (TypeError ''Input must be a string'')"
    by (simp_all add: entry_defs validateInputs_string [OF h])
next
  assume h: "is_string a \<and> is_string b \<and> \<not> is_finite_number n"
  then have v: "validateInputs a b n = Inl (TypeError ''Input must be a number'')"
    by (simp add: validateInputs_number)
  show "convertTemperature cs a b n = Inl (TypeError ''Input must be a number'')"
       "convertLength cs a b n = Inl (TypeError ''Input must be a number'')"
       "convertSpeed cs a b n = Inl (TypeError ''Input must be a number'')"
       "convertWeight cs a b n = Inl (TypeError ''Input must be a number'')"
       "convertVolume cs a b n = Inl (TypeError ''Input must be a number'')"
    by (simp_all add: entry_defs v)
next
  assume h: "is_string a \<and> is_string b \<and> n = JNum (Finite x) \<and> x < 0"
  then obtain f t where "a = JStr f" "b = JStr t"
    by (auto simp: is_string_def split: jsval.splits)
  with h have v: "validateInputs a b n = Inr (f, t, x)"
    by (simp add: validateInputs_pass)
  from h have p: "validatePositiveNumber x = Inl (ValueError ''Number must be positive'')"
    by (simp add: validatePositiveNumber_def)
  show "convertLength cs a b n = Inl (ValueError ''Number must be positive'')"
       "convertSpeed cs a b n = Inl (ValueError ''Number must be positive'')"
       "convertWeight cs a b n = Inl (ValueError ''Number must be positive'')"
       "convertVolume cs a b n = Inl (ValueError ''Number must be positive'')"
    by (simp_all add: entry_defs v p)
next
  assume h: "a = JStr f \<and> b = JStr t \<and> n = JNum (Finite x)"
  then have v: "validateInputs a b n = Inr (f, t, x)"
    by (simp add: validateInputs_pass)
  show "convertTemperature cs a b n = temperatureConverter cs f t x"
    by (simp add: entry_defs v)
  assume "0 \<le> x"
  then have p: "validatePositiveNumber x = Inr x"
    by (simp add: validatePositiveNumber_def)
  show "convertLength cs a b n = lengthConverter cs f t x"
       "convertSpeed cs a b n = speedConverter cs f t x"
       "convertWeight cs a b n = weightConverter cs f t x"
       "convertVolume cs a b n = volumeConverter cs f t x"
    by (simp_all add: entry_defs v p)
next
  assume h: "convertTemperature cs a b n = Inl (Error ''Conversion not available'')"
  then obtain f t x where "validateInputs a b n = Inr (f, t, x)"
    by (cases "validateInputs a b n") (auto simp: entry_defs dest: validateInputs_Inl)
  then have "a = JStr f \<and> b = JStr t \<and> n = JNum (Finite x)"
    by (simp add: validateInputs_Inr)
  then show "is_string a" "is_string b" "is_finite_number n"
    by (simp_all add: is_string_def is_finite_number_def)
next
  assume h: "convertLength cs a b n = Inl (Error ''Conversion not available'') \<or>
    convertSpeed cs a b n = Inl (Error ''Conversion not available'') \<or>
    convertWeight cs a b n = Inl (Error ''Conversion not available'') \<or>
    convertVolume cs a b n = Inl (Error ''Conversion not available'')"
  then obtain f t x where v: "validateInputs a b n = Inr (f, t, x)"
    by (cases "validateInputs a b n") (auto simp: entry_defs dest: validateInputs_Inl)
  then have s: "a = JStr f \<and> b = JStr t \<and> n = JNum (Finite x)"
    by (simp add: validateInputs_Inr)
  from h v have "0 \<le> x"
    by (auto simp: entry_defs validatePositiveNumber_def split: if_splits)
  with s show "\<exists>r. is_string a \<and> is_string b \<and> n = JNum (Finite r) \<and> 0 \<le> r"
    by (simp add: is_string_def)
next
  assume h: "n = JNum (Finite x) \<and> x < 0"
  show "\<forall>r. convertLength cs a b n \<noteq> Inr r \<and> convertSpeed cs a b n \<noteq> Inr r \<and>
           convertWeight cs a b n \<noteq> Inr r \<and> convertVolume cs a b n \<noteq> Inr r"
  proof (cases "validateInputs a b n")
    case (Inl e)
    then show ?thesis by (simp add: entry_defs)
  next
    case (Inr v)
    then obtain f t y where "validateInputs a b n = Inr (f, t, y)"
      by (cases v) auto
    moreover from this h have "y = x"
      by (simp add: validateInputs_Inr)
    ultimately show ?thesis using h
      by (simp add: entry_defs validatePositiveNumber_def)
  qed
qed

theorem validation_order_witness:
  "convertLength ConverterSystem (JNum (Finite 3)) (JStr ''ft'') (JNum (Finite (- 1)))
     = Inl (TypeError ''Input must be a string'') \<and>
   convertWeight ConverterSystem (JStr ''kg'') (JStr ''lb'') (JStr ''12'')
     = Inl (TypeError ''Input must be a number'') \<and>
   convertLength ConverterSystem (JStr ''m'') (JStr ''inches'') (JNum (Finite (- 1)))
     = Inl (ValueError ''Number must be positive'') \<and>
   convertLength ConverterSystem (JStr ''m'') (JStr ''inches'') (JNum (Finite 1))
     = Inl (Error ''Conversion not available'') \<and>
   (\<exists>r. is_string (JStr ''m'') \<and> is_string (JStr ''inches'') \<and>
        JNum (Finite 1) = JNum (Finite r) \<and> 0 \<le> r) \<and>
   convertLength ConverterSystem (JStr ''m'') (JStr ''ft'') (JNum (Finite 2)) = Inr 6.56168 \<and>
   convertTemperature ConverterSystem (JStr ''celsius'') (JStr ''kelvin'') (JNum (Finite (- 1)))
     = Inl (Error ''Conversion not available'') \<and>
   is_finite_number (JNum (Finite (- 1))) \<and>
   (\<forall>r. convertVolume ConverterSystem JNull (JStr ''l'') (JNum (Finite (- 4))) \<noteq> Inr r)"
proof -
  have 1: "convertLength ConverterSystem (JNum (Finite 3)) (JStr ''ft'') (JNum (Finite (- 1)))
          = Inl (TypeError ''Input must be a string'')"
    using validation_order [where cs = ConverterSystem and a = "JNum (Finite 3)"
        and b = "JStr ''ft''" and n = "JNum (Finite (- 1))", THEN conjunct1]
    by (simp add: is_string_def)
  have 2: "convertWeight ConverterSystem (JStr ''kg'') (JStr ''lb'') (JStr ''12'')
          = Inl (TypeError ''Input must be a number'')"
    using validation_order [where cs = ConverterSystem and a = "JStr ''kg''"
        and b = "JStr ''lb''" and n = "JStr ''12''", THEN conjunct2, THEN conjunct1]
    by (simp add: is_string_def is_finite_number_def)
  have 3: "convertLength ConverterSystem (JStr ''m'') (JStr ''inches'') (JNum (Finite (- 1)))
          = Inl (ValueError ''Number must be positive'')"
    using validation_order [where cs = ConverterSystem and a = "JStr ''m''"
        and b = "JStr ''inches''" and n = "JNum (Finite (- 1))" and x = "- 1",
        THEN conjunct2, THEN conjunct2, THEN conjunct1]
    by (simp add: is_string_def)
  have 4: "convertLength ConverterSystem (JStr ''m'') (JStr ''inches'') (JNum (Finite 1))
          = Inl (Error ''Conversion not available'')"
    using validation_order [where cs = ConverterSystem and a = "JStr ''m''"
        and b = "JStr ''inches''" and n = "JNum (Finite 1)" and x = 1
        and f = "''m''" and t = "''inches''",
        THEN conjunct2, THEN conjunct2, THEN conjunct2, THEN conjunct1]
    by (simp add: ConverterSystem_def unit_defs toLowerCase_def toLowerChar_def)
  have 5: "\<exists>r. is_string (JStr ''m'') \<and> is_string (JStr ''inches'') \<and>
        JNum (Finite 1) = JNum (Finite r) \<and> 0 \<le> r"
    using 4 validation_order [where cs = ConverterSystem and a = "JStr ''m''"
        and b = "JStr ''inches''" and n = "JNum (Finite 1)",
        THEN conjunct2, THEN conjunct2, THEN conjunct2, THEN conjunct2, THEN conjunct2,
        THEN conjunct1]
    by blast
  have 6: "convertLength ConverterSystem (JStr ''m'') (JStr ''ft'') (JNum (Finite 2)) = Inr 6.56168"
    using validation_order [where cs = ConverterSystem and a = "JStr ''m''"
        and b = "JStr ''ft''" and n = "JNum (Finite 2)" and x = 2
        and f = "''m''" and t = "''ft''",
        THEN conjunct2, THEN conjunct2, THEN conjunct2, THEN conjunct1]
    by (simp add: ConverterSystem_def unit_defs toLowerCase_def toLowerChar_def)
  have 7: "convertTemperature ConverterSystem (JStr ''celsius'') (JStr ''kelvin'')
             (JNum (Finite (- 1))) = Inl (Error ''Conversion not available'')"
    using validation_order [where cs = ConverterSystem and a = "JStr ''celsius''"
        and b = "JStr ''kelvin''" and n = "JNum (Finite (- 1))" and x = "- 1"
        and f = "''celsius''" and t = "''kelvin''",
        THEN conjunct2, THEN conjunct2, THEN conjunct2, THEN conjunct1]
    by (simp add: ConverterSystem_def temperature_defs toLowerCase_def toLowerChar_def)
  have 8: "is_finite_number (JNum (Finite (- 1)))"
    using 7 validation_order [where cs = ConverterSystem and a = "JStr ''celsius''"
        and b = "JStr ''kelvin''" and n = "JNum (Finite (- 1))",
        THEN conjunct2, THEN conjunct2, THEN conjunct2, THEN conjunct2, THEN conjunct1]
    by blast
  have 9: "\<forall>r. convertVolume ConverterSystem JNull (JStr ''l'') (JNum (Finite (- 4))) \<noteq> Inr r"
    using validation_order [where cs = ConverterSystem and a = JNull
        and b = "JStr ''l''" and n = "JNum (Finite (- 4))" and x = "- 4",
        THEN conjunct2, THEN conjunct2, THEN conjunct2, THEN conjunct2, THEN conjunct2,
        THEN conjunct2]
    by simp
  show ?thesis
    by (intro conjI 1 2 3 4 5 6 7 8 9)
qed

section \<open>Batch conversion\<close>

lemma arrayMap_Inr_iff:
  "arrayMap g xs = Inr ys \<longleftrightarrow> list_all2 (\<lambda>x y. g x = Inr y) xs ys"
proof (induction xs arbitrary: ys)
  case Nil
  show ?case by auto
next
  case (Cons x xs)
  show ?case
  proof (cases "g x")
    case (Inl e)
    then show ?thesis by (auto simp: list_all2_Cons1)
  next
    case gx: (Inr y)
    show ?thesis
    proof (cases "arrayMap g xs")
      case (Inl e)
      with gx Cons.IH show ?thesis by (auto simp: list_all2_Cons1)
    next
      case (Inr zs)
      with gx Cons.IH show ?thesis by (auto simp: list_all2_Cons1)
    qed
  qed
qed

lemma arrayMap_throws:
  "x \<in> set xs \<Longrightarrow> g x = Inl e \<Longrightarrow> \<exists>e'. arrayMap g xs = Inl e'"
  by (induction xs) (auto split: sum.splits)

lemma arrayMap_returns:
  "(\<And>x. x \<in> set xs \<Longrightarrow> \<exists>y. g x = Inr y) \<Longrightarrow> \<exists>ys. arrayMap g xs = Inr ys"
proof (induction xs)
  case Nil
  show ?case by simp
next
  case (Cons x xs)
  then obtain y ys where "g x = Inr y" "arrayMap g xs = Inr ys"
    by (meson list.set_intros)
  then show ?case by simp
qed

lemma baseConversion_method:
  assumes "baseConversion cs ct = Some conv"
  shows "\<exists>m. chooseConversionMethod ct = Inr m \<and>
             (\<forall>a b n. callMethod cs m a b n = number (conv a b n))"
  using assms
  by (auto simp: baseConversion_def chooseConversionMethod_def conversionMethods_def Let_def
           split: if_splits)

lemma number_Inr: "number r = Inr v \<longleftrightarrow> (\<exists>y. r = Inr y \<and> v = JNum (Finite y))"
  by (auto simp: number_def split: sum.splits)

lemma number_Inl: "number r = Inl e \<longleftrightarrow> r = Inl e"
  by (auto simp: number_def split: sum.splits)

lemma convertMultipleValues_valid:
  assumes "baseConversion cs ct = Some conv"
  shows "convertMultipleValues cs (JStr ct) a b (JArr xs) =
         arrayMap (\<lambda>n. number (conv a b n)) xs"
proof -
  from baseConversion_method [OF assms] obtain m where
    m: "chooseConversionMethod ct = Inr m"
    and c: "\<And>a b n. callMethod cs m a b n = number (conv a b n)"
    by blast
  from c have "callMethod cs m a b = (\<lambda>n. number (conv a b n))"
    by (intro ext) simp
  with m show ?thesis
    by (simp add: convertMultipleValues_def validateInputTypeString_def
                  validateInputTypeArray_def)
qed

lemma batch_elementwise:
  assumes "baseConversion cs category = Some conv"
    and "convertMultipleValues cs (JStr category) a b (JArr xs) = Inr ys"
  shows "length ys = length xs \<and>
         (\<forall>i<length xs. \<exists>r. conv a b (xs ! i) = Inr r \<and> ys ! i = JNum (Finite r))"
proof -
  from assms have "list_all2 (\<lambda>x y. number (conv a b x) = Inr y) xs ys"
    by (simp add: convertMultipleValues_valid arrayMap_Inr_iff)
  then show ?thesis
    by (simp add: list_all2_conv_all_nth number_Inr)
qed

lemma batch_returns:
  assumes "baseConversion cs category = Some conv"
    and "\<forall>x\<in>set xs. \<exists>r. conv a b x = Inr r"
  shows "\<exists>ys. convertMultipleValues cs (JStr category) a b (JArr xs) = Inr ys"
proof -
  from assms(2) have "\<And>x. x \<in> set xs \<Longrightarrow> \<exists>y. number (conv a b x) = Inr y"
    by (auto simp: number_Inr)
  then have "\<exists>ys. arrayMap (\<lambda>n. number (conv a b n)) xs = Inr ys"
    by (rule arrayMap_returns)
  then show ?thesis
    by (simp add: convertMultipleValues_valid [OF assms(1)])
qed

lemma batch_aborts:
  assumes "baseConversion cs category = Some conv"
    and "\<exists>x\<in>set xs. \<exists>e. conv a b x = Inl e"
  shows "\<exists>e. convertMultipleValues cs (JStr category) a b (JArr xs) = Inl e"
proof -
  from assms(2) obtain x e where "x \<in> set xs" "number (conv a b x) = Inl e"
    by (auto simp: number_Inl)
  then have "\<exists>e'. arrayMap (\<lambda>n. number (conv a b n)) xs = Inl e'"
    by (rule arrayMap_throws)
  then show ?thesis
    by (simp add: convertMultipleValues_valid [OF assms(1)])
qed

text \<open>
  C2. For a valid category and an array of values, \<open>convertMultipleValues\<close> returns
  an array only of the same length, whose \<open>i\<close>-th element is the base conversion
  of the \<open>i\<close>-th value; it does return one when every element converts; and when the
  base conversion throws on some element the whole call throws, so no array, and no
  prefix of one, comes back.
\<close>

theorem batch_conversion:
  assumes "baseConversion cs category = Some conv"
  shows "(\<forall>ys. convertMultipleValues cs (JStr category) a b (JArr xs) = Inr ys \<longrightarrow>
            length ys = length xs \<and>
            (\<forall>i<length xs. \<exists>r. conv a b (xs ! i) = Inr r \<and> ys ! i = JNum (Finite r))) \<and>
         ((\<forall>x\<in>set xs. \<exists>r. conv a b x = Inr r) \<longrightarrow>
            (\<exists>ys. convertMultipleValues cs (JStr category) a b (JArr xs) = Inr ys)) \<and>
         ((\<exists>x\<in>set xs. \<exists>e. conv a b x = Inl e) \<longrightarrow>
            (\<exists>e. convertMultipleValues cs (JStr category) a b (JArr xs) = Inl e))"
  using batch_elementwise [OF assms] batch_returns [OF assms] batch_aborts [OF assms]
  by blast

theorem batch_conversion_witness:
  "baseConversion ConverterSystem ''Length'' = Some (convertLength ConverterSystem) \<and>
   convertMultipleValues ConverterSystem (JStr ''Length'') (JStr ''m'') (JStr ''ft'')
       (JArr [JNum (Finite 1), JNum (Finite 2)])
     = Inr [JNum (Finite 3.28084), JNum (Finite 6.56168)] \<and>
   convertLength ConverterSystem (JStr ''m'') (JStr ''ft'') (JNum (Finite (- 2)))
     = Inl (ValueError ''Number must be positive'') \<and>
   (\<exists>e. convertMultipleValues ConverterSystem (JStr ''Length'') (JStr ''m'') (JStr ''ft'')
       (JArr [JNum (Finite 1), JNum (Finite (- 2))]) = Inl e)"
proof -
  have h: "baseConversion ConverterSystem ''Length'' = Some (convertLength ConverterSystem)"
    by (simp add: eval_defs)
  have good: "convertMultipleValues ConverterSystem (JStr ''Length'') (JStr ''m'') (JStr ''ft'')
       (JArr [JNum (Finite 1), JNum (Finite 2)])
     = Inr [JNum (Finite 3.28084), JNum (Finite 6.56168)]"
    by (simp add: convertMultipleValues_def eval_defs facade_defs unit_defs)
  have bad: "convertLength ConverterSystem (JStr ''m'') (JStr ''ft'') (JNum (Finite (- 2)))
               = Inl (ValueError ''Number must be positive'')"
    by (simp add: eval_defs facade_defs)
  then have "\<exists>x\<in>set [JNum (Finite 1), JNum (Finite (- 2))].
               \<exists>e. convertLength ConverterSystem (JStr ''m'') (JStr ''ft'') x = Inl e"
    by simp
  with batch_conversion [OF h, of "JStr ''m''" "JStr ''ft''" "[JNum (Finite 1), JNum (Finite (- 2))]"]
  have "\<exists>e. convertMultipleValues ConverterSystem (JStr ''Length'') (JStr ''m'') (JStr ''ft'')
       (JArr [JNum (Finite 1), JNum (Finite (- 2))]) = Inl e"
    by blast
  with h good bad show ?thesis by blast
qed

text \<open>
  C9. With a valid category and the empty array, \<open>convertMultipleValues\<close> returns
  the empty array whatever the two unit arguments are: they may be values that are not
  strings or units that no converter knows, since nothing is converted.
\<close>

theorem empty_batch:
  assumes "baseConversion cs category = Some conv"
  shows "convertMultipleValues cs (JStr category) a b (JArr []) = Inr []"
  by (simp add: convertMultipleValues_valid [OF assms])

theorem empty_batch_witness:
  "baseConversion ConverterSystem ''Length'' = Some (convertLength ConverterSystem) \<and>
   convertMultipleValues ConverterSystem (JStr ''Length'') (JNum (Finite 5)) JUndefined (JArr [])
     = Inr []"
proof -
  have h: "baseConversion ConverterSystem ''Length'' = Some (convertLength ConverterSystem)"
    by (simp add: eval_defs)
  from h empty_batch [OF h] show ?thesis by simp
qed

lemma entry_pass:
  "convertTemperature cs (JStr f) (JStr t) (JNum (Finite x)) = temperatureConverter cs f t x"
  "convertLength cs (JStr f) (JStr t) (JNum (Finite x)) =
     (if x < 0 then Inl (ValueError ''Number must be positive'') else lengthConverter cs f t x)"
  "convertSpeed cs (JStr f) (JStr t) (JNum (Finite x)) =
     (if x < 0 then Inl (ValueError ''Number must be positive'') else speedConverter cs f t x)"
  "convertWeight cs (JStr f) (JStr t) (JNum (Finite x)) =
     (if x < 0 then Inl (ValueError ''Number must be positive'') else weightConverter cs f t x)"
  "convertVolume cs (JStr f) (JStr t) (JNum (Finite x)) =
     (if x < 0 then Inl (ValueError ''Number must be positive'') else volumeConverter cs f t x)"
  by (simp_all add: entry_defs validateInputs_pass validatePositiveNumber_def)

section \<open>Conversion with a summary\<close>

lemma convertWithSummary_valid:
  assumes "baseConversion cs ct = Some conv"
  shows "convertWithSummary cs (JStr ct) a b n =
         (case conv a b n of
            Inl e \<Rightarrow> Inl e
          | Inr y \<Rightarrow> Inr \<lparr> conversionType = JStr ct, convertFrom = a, convertTo = b,
                            numberToConvert = n, convertedNumber = JNum (Finite y) \<rparr>)"
proof -
  from baseConversion_method [OF assms] obtain m where
    m: "chooseConversionMethod ct = Inr m"
    and c: "\<And>a b n. callMethod cs m a b n = number (conv a b n)"
    by blast
  then show ?thesis
    by (simp add: convertWithSummary_def validateInputTypeString_def number_def
             split: sum.splits)
qed

text \<open>
  C8. For a valid category, when the base conversion of the arguments returns a number,
  \<open>convertWithSummary\<close> returns a record whose \<open>conversionType\<close>, \<open>convertFrom\<close>,
  \<open>convertTo\<close> and \<open>numberToConvert\<close> are the arguments as they were passed and whose
  \<open>convertedNumber\<close> is that number; when the base conversion throws, it throws the
  same error.
\<close>

theorem summary_echoes_inputs:
  assumes "baseConversion cs category = Some conv"
  shows "(\<forall>y. conv a b n = Inr y \<longrightarrow>
            (\<exists>s. convertWithSummary cs (JStr category) a b n = Inr s \<and>
                 conversionType s = JStr category \<and> convertFrom s = a \<and> convertTo s = b \<and>
                 numberToConvert s = n \<and> convertedNumber s = JNum (Finite y))) \<and>
         (\<forall>e. conv a b n = Inl e \<longrightarrow>
            convertWithSummary cs (JStr category) a b n = Inl e)"
  by (simp add: convertWithSummary_valid [OF assms])

theorem summary_echoes_inputs_witness:
  "baseConversion ConverterSystem ''Weight'' = Some (convertWeight ConverterSystem) \<and>
   convertWeight ConverterSystem (JStr ''KG'') (JStr ''Pounds'') (JNum (Finite 12)) = Inr 26.45544 \<and>
   convertWithSummary ConverterSystem (JStr ''Weight'') (JStr ''KG'') (JStr ''Pounds'')
       (JNum (Finite 12))
     = Inr \<lparr> conversionType = JStr ''Weight'', convertFrom = JStr ''KG'',
             convertTo = JStr ''Pounds'', numberToConvert = JNum (Finite 12),
             convertedNumber = JNum (Finite 26.45544) \<rparr> \<and>
   convertWeight ConverterSystem (JStr ''KG'') (JStr ''grams'') (JNum (Finite 12))
     = Inl (Error ''Conversion not available'') \<and>
   convertWithSummary ConverterSystem (JStr ''Weight'') (JStr ''KG'') (JStr ''grams'')
       (JNum (Finite 12))
     = Inl (Error ''Conversion not available'')"
proof -
  have h: "baseConversion ConverterSystem ''Weight'' = Some (convertWeight ConverterSystem)"
    by (simp add: eval_defs)
  have c: "convertWeight ConverterSystem (JStr ''KG'') (JStr ''Pounds'') (JNum (Finite 12))
             = Inr 26.45544"
    and e: "convertWeight ConverterSystem (JStr ''KG'') (JStr ''grams'') (JNum (Finite 12))
             = Inl (Error ''Conversion not available'')"
    by (simp_all add: eval_defs facade_defs unit_defs)
  from summary_echoes_inputs [OF h, of "JStr ''KG''" "JStr ''Pounds''" "JNum (Finite 12)"] c
  obtain s where s: "convertWithSummary ConverterSystem (JStr ''Weight'') (JStr ''KG'')
       (JStr ''Pounds'') (JNum (Finite 12)) = Inr s"
    "conversionType s = JStr ''Weight''" "convertFrom s = JStr ''KG''"
    "convertTo s = JStr ''Pounds''" "numberToConvert s = JNum (Finite 12)"
    "convertedNumber s = JNum (Finite 26.45544)"
    by blast
  from summary_echoes_inputs [OF h, of "JStr ''KG''" "JStr ''grams''" "JNum (Finite 12)"] e
  have "convertWithSummary ConverterSystem (JStr ''Weight'') (JStr ''KG'') (JStr ''grams'')
       (JNum (Finite 12)) = Inl (Error ''Conversion not available'')"
    by blast
  with h c e s show ?thesis by simp
qed

section \<open>Unknown categories\<close>

text \<open>
  A lower-cased key has no upper-case letter, so of the properties that the method
  table inherits only \<open>constructor\<close> and \<open>__proto__\<close> can be looked up.
\<close>

lemma toLowerChar_not_upper: "toLowerChar c \<notin> set ''ABCDEFGHIJKLMNOPQRSTUVWXYZ''"
  by (simp add: toLowerChar_def)

lemma toLowerCase_no_upper:
  assumes "u \<in> set ''ABCDEFGHIJKLMNOPQRSTUVWXYZ''" and "u \<in> set k"
  shows "toLowerCase s \<noteq> k"
proof
  assume "toLowerCase s = k"
  with assms(2) obtain c where "u = toLowerChar c"
    by (auto simp: toLowerCase_def)
  with assms(1) toLowerChar_not_upper [of c] show False by simp
qed

lemma inherited_names_unreachable:
  "toLowerCase s \<notin> {''toString'', ''valueOf'', ''hasOwnProperty'', ''isPrototypeOf'',
     ''propertyIsEnumerable'', ''toLocaleString'', ''__defineGetter__'', ''__defineSetter__'',
     ''__lookupGetter__'', ''__lookupSetter__''}"
  using toLowerCase_no_upper [of "CHR ''S''" "''toString''" s]
        toLowerCase_no_upper [of "CHR ''O''" "''valueOf''" s]
        toLowerCase_no_upper [of "CHR ''O''" "''hasOwnProperty''" s]
        toLowerCase_no_upper [of "CHR ''P''" "''isPrototypeOf''" s]
        toLowerCase_no_upper [of "CHR ''I''" "''propertyIsEnumerable''" s]
        toLowerCase_no_upper [of "CHR ''L''" "''toLocaleString''" s]
        toLowerCase_no_upper [of "CHR ''G''" "''__defineGetter__''" s]
        toLowerCase_no_upper [of "CHR ''S''" "''__defineSetter__''" s]
        toLowerCase_no_upper [of "CHR ''G''" "''__lookupGetter__''" s]
        toLowerCase_no_upper [of "CHR ''S''" "''__lookupSetter__''" s]
  by simp

text \<open>
  A category whose lower-casing is neither one of the five keys nor a name that the
  method table inherits is rejected by all three operations.
\<close>

lemma unknown_category_rejected:
  assumes "toLowerCase ct \<notin> {''temperature'', ''length'', ''speed'', ''weight'', ''volume'',
             ''constructor'', ''__proto__''}"
  shows "convertWithSummary cs (JStr ct) a b n = Inl (Error ''Conversion not available'')"
    and "convertMultipleValues cs (JStr ct) a b (JArr xs) = Inl (Error ''Conversion not available'')"
    and "convertAndRoundUp cs (JStr ct) a b n (JNum (Finite d))
           = Inl (Error ''Conversion not available'')"
proof -
  from assms have "conversionMethods (toLowerCase ct) = None"
    by (simp add: conversionMethods_def)
  then have c: "chooseConversionMethod ct = Inl (Error ''Conversion not available'')"
    by (simp add: chooseConversionMethod_def)
  show "convertWithSummary cs (JStr ct) a b n = Inl (Error ''Conversion not available'')"
    by (simp add: convertWithSummary_def validateInputTypeString_def c)
  show "convertMultipleValues cs (JStr ct) a b (JArr xs)
          = Inl (Error ''Conversion not available'')"
    by (simp add: convertMultipleValues_def validateInputTypeString_def
                  validateInputTypeArray_def c)
  show "convertAndRoundUp cs (JStr ct) a b n (JNum (Finite d))
          = Inl (Error ''Conversion not available'')"
    by (simp add: convertAndRoundUp_def validateInputTypeString_def
                  validateInputTypeNumber_def c)
qed

text \<open>
  C3. The claim is that every category string whose lower-casing is not one of the
  five keys makes \<open>convertMultipleValues\<close>, \<open>convertWithSummary\<close> and
  \<open>convertAndRoundUp\<close> throw \<open>Error('Conversion not available')\<close>, and that no
  numeric result comes back. The code misses the names the method table inherits.
  With the category \<open>constructor\<close> the lookup finds the function \<open>Object\<close>, the
  guard does not throw, and the call returns the wrapper object of the first unit:
  \<open>convertWithSummary\<close> returns a summary, \<open>convertMultipleValues\<close> an array,
  and \<open>convertAndRoundUp\<close> fails on \<open>toFixed\<close> or, when the first unit is a
  number, returns that number rounded. With \<open>__proto__\<close> the call fails because
  the value found is not a function.
\<close>

theorem inherited_category_not_rejected:
  "baseConversion ConverterSystem ''constructor'' = None \<and>
   baseConversion ConverterSystem ''__proto__'' = None \<and>
   convertWithSummary ConverterSystem (JStr ''constructor'') (JStr ''m'') (JStr ''ft'')
       (JNum (Finite 1))
     = Inr \<lparr> conversionType = JStr ''constructor'', convertFrom = JStr ''m'',
             convertTo = JStr ''ft'', numberToConvert = JNum (Finite 1),
             convertedNumber = JBoxed (JStr ''m'') \<rparr> \<and>
   convertMultipleValues ConverterSystem (JStr ''Constructor'') (JStr ''m'') (JStr ''ft'')
       (JArr [JNum (Finite 1), JNum (Finite 2)])
     = Inr [JBoxed (JStr ''m''), JBoxed (JStr ''m'')] \<and>
   convertAndRoundUp ConverterSystem (JStr ''constructor'') (JStr ''m'') (JStr ''ft'')
       (JNum (Finite 1)) (JNum (Finite 2))
     = Inl (TypeError ''convertedNumber.toFixed is not a function'') \<and>
   convertAndRoundUp ConverterSystem (JStr ''constructor'') (JNum (Finite 2.5)) (JStr ''ft'')
       (JNum (Finite 1)) (JNum (Finite 0))
     = Inr (JNum (Finite 3)) \<and>
   convertWithSummary ConverterSystem (JStr ''__proto__'') (JStr ''m'') (JStr ''ft'')
       (JNum (Finite 1))
     = Inl (TypeError ''conversionMethod is not a function'')"
  by (simp add: convertWithSummary_def convertMultipleValues_def convertAndRoundUp_def
                eval_defs toFixed_def numberToFixed_def toIntegerOrInfinity_def
                fixedDigits_def)

section \<open>Conversion with rounding\<close>

text \<open>
  C10, as stated: whenever \<open>decimalPlaces\<close> is not a finite number,
  \<open>convertAndRoundUp\<close> throws \<open>TypeError 'Input must be a number'\<close>, also when the
  category is invalid. It does not when the category is not a string: the category's
  type is checked first.
\<close>

theorem decimalPlaces_not_first_counterexample:
  "\<not> is_finite_number (JStr ''2'') \<and>
   convertAndRoundUp ConverterSystem (JNum (Finite 7)) (JStr ''m'') (JStr ''ft'')
       (JNum (Finite 1)) (JStr ''2'')
     = Inl (TypeError ''Input must be a string'') \<and>
   convertAndRoundUp ConverterSystem (JNum (Finite 7)) (JStr ''m'') (JStr ''ft'')
       (JNum (Finite 1)) (JStr ''2'')
     \<noteq> Inl (TypeError ''Input must be a number'')"
  by (simp add: convertAndRoundUp_def validateInputTypeString_def is_finite_number_def)

text \<open>
  C10, amended: when the category is a string and \<open>decimalPlaces\<close> is not a finite
  number, \<open>convertAndRoundUp\<close> throws \<open>TypeError 'Input must be a number'\<close>,
  whatever the category, the units and the value are, so before the category is
  resolved and before anything is converted. A category that is not a string throws
  \<open>TypeError 'Input must be a string'\<close> before that.
\<close>

theorem decimalPlaces_checked_before_category:
  "(\<not> is_finite_number d \<longrightarrow>
      convertAndRoundUp cs (JStr category) a b n d = Inl (TypeError ''Input must be a number'')) \<and>
   (\<not> is_string c \<longrightarrow>
      convertAndRoundUp cs c a b n d = Inl (TypeError ''Input must be a string''))"
  by (auto simp: convertAndRoundUp_def validateInputTypeString_def validateInputTypeNumber_def
                 is_finite_number_def is_string_def
           split: jsval.splits jsnumber.splits)

theorem decimalPlaces_checked_before_category_witness:
  "\<not> is_finite_number (JNum NaN) \<and>
   convertAndRoundUp ConverterSystem (JStr ''mass'') JNull (JStr ''ft'') (JNum (Finite (- 1)))
       (JNum NaN)
     = Inl (TypeError ''Input must be a number'') \<and>
   \<not> is_string (JNum (Finite 7)) \<and>
   convertAndRoundUp ConverterSystem (JNum (Finite 7)) (JStr ''m'') (JStr ''ft'')
       (JNum (Finite 1)) (JStr ''2'')
     = Inl (TypeError ''Input must be a string'')"
  using decimalPlaces_checked_before_category [of "JNum NaN" ConverterSystem "''mass''" JNull
          "JStr ''ft''" "JNum (Finite (- 1))" "JNum (Finite 7)"]
        decimalPlaces_checked_before_category [of "JStr ''2''" ConverterSystem "''mass''"
          "JStr ''m''" "JStr ''ft''" "JNum (Finite 1)" "JNum (Finite 7)"]
  by (simp add: is_finite_number_def is_string_def)













section \<open>Temperature formulas\<close>

text \<open>
  C4. Celsius to Fahrenheit computes \<open>x*9/5+32\<close> and Fahrenheit to Celsius
  \<open>(x-32)*5/9\<close>; 18 degrees Celsius are exactly 64.4 degrees Fahrenheit, -25 degrees
  Celsius are exactly -13 degrees Fahrenheit, and 68 degrees Fahrenheit are exactly 20
  degrees Celsius, through the handlers and through the facade.
\<close>

theorem temperature_formulas:
  "celsiusToFahrenheit x = x * 9 / 5 + 32 \<and>
   fahrenheitToCelsius x = (x - 32) * 5 / 9 \<and>
   convertFromCelsius ''fahrenheit'' 18 = Inr 64.4 \<and>
   convertFromCelsius ''fahrenheit'' (- 25) = Inr (- 13) \<and>
   convertFromFahrenheit ''celsius'' 68 = Inr 20 \<and>
   convertTemperature ConverterSystem (JStr ''celsius'') (JStr ''fahrenheit'') (JNum (Finite 18))
     = Inr 64.4 \<and>
   convertTemperature ConverterSystem (JStr ''celsius'') (JStr ''fahrenheit'')
       (JNum (Finite (- 25)))
     = Inr (- 13) \<and>
   convertTemperature ConverterSystem (JStr ''fahrenheit'') (JStr ''celsius'') (JNum (Finite 68))
     = Inr 20"
  by (simp add: temperature_defs toLowerCase_def toLowerChar_def entry_pass ConverterSystem_def)

section \<open>Round trips\<close>








section \<open>Case-insensitive matching and aliases\<close>













end
